theory Spec2Isabelle
  imports
    Main
    "HOL-Library.Word"
    "HOL-Library.Multiset"
    "HOL-Library.Char_ord"
    "HOL-Library.List_Lexorder"
    "HOL-Library.AList"
    "HOL-Library.Countable"
begin

section \<open>mghash: hash-based build skipping\<close>

text \<open>
  A shallow embedding of the Go package \<^verbatim>\<open>github.com/bobg/mghash\<close>: the skip engine
  \<^verbatim>\<open>Fn.Run\<close> (mghash.go), the file-set rule \<^verbatim>\<open>JRule\<close> (jrule.go, in its later version
  with the \<^verbatim>\<open>Dir\<close> field) and the Sqlite3 hash store (package sqlite).

  What the package calls but does not contain is kept outside the definitions: the SHA-256
  digest, the canonical JSON encoder, the process spawner and the filesystem are
  parameters of the functions that use them; the clock readings of \<^verbatim>\<open>time.Now()\<close> are
  arguments of the store operations. The four SQL statements of the store get the meaning
  SQLite gives them, on a table modelled as its list of rows. A Go byte slice is a list of
  8-bit words, a Go string a list of characters (bytes); a nil slice and an empty one are
  the same list. The \<^verbatim>\<open>context.Context\<close> argument, which none of the
  modelled functions inspects, is left out: callers pass a context that is not nil, and
  cancellation is an error like any other of the call it interrupts.
\<close>

type_synonym bytes = "8 word list"

subsection \<open>Errors\<close>

text \<open>
  Go errors as values. \<open>ErrNotExist\<close> is the sentinel \<^verbatim>\<open>fs.ErrNotExist\<close> (with which
  \<^verbatim>\<open>errors.Is\<close> identifies the errno ENOENT), \<open>PathError op path err\<close> is
  \<^verbatim>\<open>*fs.PathError\<close>, \<open>ErrorString\<close> is any other leaf error, known by its message, and
  \<open>WithMessage err msg\<close> is what \<^verbatim>\<open>errors.Wrap\<close> and \<^verbatim>\<open>errors.Wrapf\<close> of
  \<^verbatim>\<open>github.com/pkg/errors\<close> build around a non-nil error.
\<close>

datatype error =
    ErrNotExist
  | ErrorString string
  | PathError string string error
  | WithMessage error string

text \<open>\<^verbatim>\<open>errors.Wrap(err, msg)\<close> on a possibly nil error: nil stays nil.\<close>

fun errors_Wrap :: "error option \<Rightarrow> string \<Rightarrow> error option" where
  "errors_Wrap None msg = None"
| "errors_Wrap (Some err) msg = Some (WithMessage err msg)"

text \<open>
  \<^verbatim>\<open>errors.Is(err, target)\<close>: follows the \<^verbatim>\<open>Unwrap\<close> chain, which both the wrappers of
  pkg/errors and \<^verbatim>\<open>*fs.PathError\<close> provide.
\<close>

fun errors_Is :: "error \<Rightarrow> error \<Rightarrow> bool" where
  "errors_Is ErrNotExist target = (target = ErrNotExist)"
| "errors_Is (ErrorString s) target = (target = ErrorString s)"
| "errors_Is (PathError op path err) target =
     (target = PathError op path err \<or> errors_Is err target)"
| "errors_Is (WithMessage err msg) target =
     (target = WithMessage err msg \<or> errors_Is err target)"

subsection \<open>The interfaces Rule and DB, and the skip engine Fn.Run (mghash.go)\<close>

text \<open>
  A call either returns or panics. \<open>Returned None\<close> is a nil error.
\<close>

datatype result = Panicked | Returned "error option"

text \<open>
  The interface \<^verbatim>\<open>Rule\<close> as a record of its methods over a world state \<open>'w\<close> (the
  filesystem, the database file, whatever an implementation touches). A method takes the
  world and returns the new one with its result. \<^verbatim>\<open>String\<close> comes from the embedded
  \<^verbatim>\<open>fmt.Stringer\<close>. A fallible result \<^verbatim>\<open>(v, err)\<close> is a sum: \<open>Inl err\<close> when
  \<^verbatim>\<open>err != nil\<close>, else \<open>Inr v\<close>; \<^verbatim>\<open>Fn.Run\<close> never reads \<open>v\<close> beside a non-nil error.
\<close>

record 'w Rule =
  Rule_String :: string
  Rule_RuleHash :: "'w \<Rightarrow> bytes"
  Rule_ContentHash :: "'w \<Rightarrow> (error + bytes) \<times> 'w"
  Rule_Run :: "'w \<Rightarrow> result \<times> 'w"

record 'w DB =
  DB_Has :: "bytes \<Rightarrow> 'w \<Rightarrow> (error + bool) \<times> 'w"
  DB_Add :: "bytes \<Rightarrow> 'w \<Rightarrow> error option \<times> 'w"

record 'w Fn =
  Fn_DB :: "'w DB"
  Fn_Rule :: "'w Rule"

text \<open>
  What an invocation did, in order: the calls it made on its rule and its store, and the
  line it logged. The trace is the only addition to the source: it records the calls so
  that ``is never called'' can be stated.
\<close>

datatype event =
    CallContentHash
  | CallHas bytes
  | CallRun
  | CallAdd bytes
  | LogPrintf string

text \<open>
  \<^verbatim>\<open>func (f *Fn) Run(ctx context.Context) error\<close>, statement by statement. \<open>verbose\<close> is
  what \<^verbatim>\<open>mg.Verbose()\<close> returns.
\<close>

definition Fn_Run :: "'w Fn \<Rightarrow> bool \<Rightarrow> 'w \<Rightarrow> result \<times> 'w \<times> event list" where
  "Fn_Run f verbose w0 =
    (case Rule_ContentHash (Fn_Rule f) w0 of
       (Inl err, w1) \<Rightarrow>
         (Returned (errors_Wrap (Some err) ''computing content hash''), w1, [CallContentHash])
     | (Inr h, w1) \<Rightarrow>
        (case DB_Has (Fn_DB f) h w1 of
           (Inl err, w2) \<Rightarrow>
             (Returned (errors_Wrap (Some err) ''consulting hash DB''), w2,
              [CallContentHash, CallHas h])
         | (Inr ok, w2) \<Rightarrow>
            if ok then
              (Returned None, w2,
               [CallContentHash, CallHas h] @
               (if verbose then [LogPrintf (Rule_String (Fn_Rule f) @ '' up to date'')] else []))
            else
              (case Rule_Run (Fn_Rule f) w2 of
                 (Panicked, w3) \<Rightarrow>
                   (Panicked, w3, [CallContentHash, CallHas h, CallRun])
               | (Returned (Some err), w3) \<Rightarrow>
                   (Returned (errors_Wrap (Some err) ''in Run''), w3,
                    [CallContentHash, CallHas h, CallRun])
               | (Returned None, w3) \<Rightarrow>
                  (case Rule_ContentHash (Fn_Rule f) w3 of
                     (Inl err, w4) \<Rightarrow>
                       (Returned (errors_Wrap (Some err) ''recomputing content hash''), w4,
                        [CallContentHash, CallHas h, CallRun, CallContentHash])
                   | (Inr h', w4) \<Rightarrow>
                      (case DB_Add (Fn_DB f) h' w4 of
                         (err, w5) \<Rightarrow>
                           (Returned err, w5,
                            [CallContentHash, CallHas h, CallRun, CallContentHash,
                             CallAdd h']))))))"

text \<open>Whether an invocation called \<^verbatim>\<open>DB.Add\<close>, resp. \<^verbatim>\<open>Rule.Run\<close>.\<close>

fun is_CallAdd :: "event \<Rightarrow> bool" where
  "is_CallAdd (CallAdd h) = True"
| "is_CallAdd e = False"

definition calls_Add :: "event list \<Rightarrow> bool" where
  "calls_Add tr = list_ex is_CallAdd tr"

definition calls_Run :: "event list \<Rightarrow> bool" where
  "calls_Run tr = (CallRun \<in> set tr)"

subsection \<open>The file-set rule JRule (jrule.go)\<close>

record JRule =
  Sources :: "string list"
  Targets :: "string list"
  Command :: "string list"
  Dir :: string

text \<open>\<^verbatim>\<open>strings.Join(elems, sep)\<close>.\<close>

fun strings_Join :: "string list \<Rightarrow> string \<Rightarrow> string" where
  "strings_Join [] sep = ''''"
| "strings_Join [s] sep = s"
| "strings_Join (s # t # elems) sep = s @ sep @ strings_Join (t # elems) sep"

definition JRule_String :: "JRule \<Rightarrow> string" where
  "JRule_String jr = ''JRule['' @ strings_Join (Targets jr) '' '' @ '']''"

text \<open>
  \<^verbatim>\<open>func (jr JRule) RuleHash() []byte\<close>. The copy \<open>jr2\<close> gets fresh copies of the two
  path lists, sorted by \<^verbatim>\<open>sort.Strings\<close> (increasing in Go's string order, which compares
  byte by byte: the lexicographic order of character lists), the command as it is, and no
  \<^verbatim>\<open>Dir\<close>: the field keeps its zero value, the empty string. \<open>json_Marshal\<close> is the
  canonical JSON encoder at type \<^verbatim>\<open>JRule\<close>, \<open>sha256_Sum256\<close> the digest. The error of
  the encoder is dropped (\<^verbatim>\<open>j, _ := json.Marshal(jr2)\<close>); beside an error the encoder
  returns a nil slice.
\<close>

definition RuleHash ::
  "(JRule \<Rightarrow> error + bytes) \<Rightarrow> (bytes \<Rightarrow> bytes) \<Rightarrow> JRule \<Rightarrow> bytes" where
  "RuleHash json_Marshal sha256_Sum256 jr =
    (let jr2 = \<lparr>Sources = sort (Sources jr), Targets = sort (Targets jr),
                Command = Command jr, Dir = ''''\<rparr>;
         j = (case json_Marshal jr2 of Inl err \<Rightarrow> [] | Inr j \<Rightarrow> j)
     in sha256_Sum256 j)"

text \<open>
  The filesystem, as far as hashing reads it: what happens when a path is opened and read
  to its end. \<open>OpenFails err\<close>: \<^verbatim>\<open>os.Open\<close> returns \<open>err\<close> (for a file that does not
  exist, a \<^verbatim>\<open>*fs.PathError\<close> around ENOENT); \<open>ReadFails err\<close>: the file opens and
  \<^verbatim>\<open>io.Copy\<close> returns \<open>err\<close>; \<open>Contents b\<close>: the file opens and reads as \<open>b\<close>.
\<close>

datatype file_state = OpenFails error | ReadFails error | Contents bytes

type_synonym filesystem = "string \<Rightarrow> file_state"

text \<open>
  \<^verbatim>\<open>func hashFile(path string) ([]byte, error)\<close>. Feeding the whole file to a
  \<^verbatim>\<open>sha256.New()\<close> hasher and calling \<^verbatim>\<open>Sum(nil)\<close> gives the digest of its contents.
\<close>

definition hashFile :: "(bytes \<Rightarrow> bytes) \<Rightarrow> filesystem \<Rightarrow> string \<Rightarrow> error + bytes" where
  "hashFile sha256_Sum256 fs path =
    (case fs path of
       OpenFails err \<Rightarrow> Inl (WithMessage err (''opening '' @ path))
     | ReadFails err \<Rightarrow> Inl (WithMessage err (''hashing '' @ path))
     | Contents b \<Rightarrow> Inr (sha256_Sum256 b))"

text \<open>
  \<^verbatim>\<open>func fillWithFileHashes(files []string, hashes map[string][]byte) error\<close>. The Go map
  is a HOL map whose values are optional: \<open>Some None\<close> is a key bound to a nil slice. The
  function fills the map it is given, so the model returns the map with the error.
\<close>

type_synonym hashes = "string \<rightharpoonup> bytes option"

fun fillWithFileHashes ::
  "(bytes \<Rightarrow> bytes) \<Rightarrow> filesystem \<Rightarrow> string list \<Rightarrow> hashes \<Rightarrow> hashes \<times> error option" where
  "fillWithFileHashes sha256_Sum256 fs [] hashes = (hashes, None)"
| "fillWithFileHashes sha256_Sum256 fs (file # files) hashes =
    (case hashFile sha256_Sum256 fs file of
       Inl err \<Rightarrow>
         if errors_Is err ErrNotExist
         then fillWithFileHashes sha256_Sum256 fs files (hashes(file \<mapsto> None))
         else (hashes, Some (WithMessage err (''computing hash of '' @ file)))
     | Inr h \<Rightarrow> fillWithFileHashes sha256_Sum256 fs files (hashes(file \<mapsto> Some h)))"

text \<open>The anonymous struct \<open>s\<close> that \<^verbatim>\<open>ContentHash\<close> encodes.\<close>

record content =
  content_Sources :: hashes
  content_Targets :: hashes
  content_Command :: "string list"

text \<open>
  \<^verbatim>\<open>func (jr JRule) ContentHash(_ context.Context) ([]byte, error)\<close>. \<open>json_Marshal\<close> is the
  canonical JSON encoder at the type of \<open>s\<close>. Paths are opened as they are written, from
  the process's working directory.
\<close>

definition ContentHash ::
  "(content \<Rightarrow> error + bytes) \<Rightarrow> (bytes \<Rightarrow> bytes) \<Rightarrow> filesystem \<Rightarrow> JRule \<Rightarrow> error + bytes" where
  "ContentHash json_Marshal sha256_Sum256 fs jr =
    (case fillWithFileHashes sha256_Sum256 fs (Sources jr) Map.empty of
       (srcs, Some err) \<Rightarrow> Inl (WithMessage err ''computing source hash(es)'')
     | (srcs, None) \<Rightarrow>
        (case fillWithFileHashes sha256_Sum256 fs (Targets jr) Map.empty of
           (tgts, Some err) \<Rightarrow> Inl (WithMessage err ''computing target hash(es)'')
         | (tgts, None) \<Rightarrow>
            (case json_Marshal \<lparr>content_Sources = srcs, content_Targets = tgts,
                                content_Command = Command jr\<rparr> of
               Inl err \<Rightarrow> Inl (WithMessage err ''in JSON marshaling'')
             | Inr j \<Rightarrow> Inr (sha256_Sum256 j))))"

text \<open>
  \<^verbatim>\<open>exec.Cmd\<close>, the fields the rule sets. \<open>Cmd_Stdout\<close> and \<open>Cmd_Stderr\<close> say whether
  the stream is connected to the caller's (\<^verbatim>\<open>os.Stdout\<close>, \<^verbatim>\<open>os.Stderr\<close>); when not,
  the subprocess's output is discarded.
\<close>

record Cmd =
  Cmd_Path :: string
  Cmd_Args :: "string list"
  Cmd_Dir :: string
  Cmd_Stdout :: bool
  Cmd_Stderr :: bool

text \<open>
  \<^verbatim>\<open>exec.CommandContext(ctx, name, arg...)\<close>: the argument vector starts with the name.
  Finding a bare name in the search path is left to the spawner.
\<close>

definition exec_CommandContext :: "string \<Rightarrow> string list \<Rightarrow> Cmd" where
  "exec_CommandContext name arg =
    \<lparr>Cmd_Path = name, Cmd_Args = name # arg, Cmd_Dir = '''',
     Cmd_Stdout = False, Cmd_Stderr = False\<rparr>"

text \<open>
  \<^verbatim>\<open>func (jr JRule) Run(ctx context.Context) error\<close>. \<^verbatim>\<open>jr.Command[0]\<close> on an empty
  command is an index out of range: a panic, before anything is spawned. \<open>cmd_Run\<close> is
  \<^verbatim>\<open>(*exec.Cmd).Run\<close>, the process spawner, acting on the world. The line logged when
  verbose goes to the standard logger and is not part of the result.
\<close>

definition JRule_Run ::
  "(Cmd \<Rightarrow> 'w \<Rightarrow> error option \<times> 'w) \<Rightarrow> bool \<Rightarrow> JRule \<Rightarrow> 'w \<Rightarrow> result \<times> 'w" where
  "JRule_Run cmd_Run verbose jr w =
    (case Command jr of
       [] \<Rightarrow> (Panicked, w)
     | name # arg \<Rightarrow>
        (let cmd = exec_CommandContext name arg;
             cmd = cmd\<lparr>Cmd_Dir := Dir jr\<rparr>;
             cmd = (if verbose then cmd\<lparr>Cmd_Stdout := True, Cmd_Stderr := True\<rparr> else cmd)
         in case cmd_Run cmd w of (err, w') \<Rightarrow> (Returned err, w')))"

text \<open>
  \<^verbatim>\<open>var _ Rule = JRule{}\<close>: a \<open>JRule\<close> as a \<open>Rule\<close>. \<open>os_files\<close> reads the filesystem
  off the world.
\<close>

definition JRule_Rule ::
  "(JRule \<Rightarrow> error + bytes) \<Rightarrow> (content \<Rightarrow> error + bytes) \<Rightarrow> (bytes \<Rightarrow> bytes) \<Rightarrow>
   ('w \<Rightarrow> filesystem) \<Rightarrow> (Cmd \<Rightarrow> 'w \<Rightarrow> error option \<times> 'w) \<Rightarrow> bool \<Rightarrow> JRule \<Rightarrow> 'w Rule" where
  "JRule_Rule marshal_rule marshal_content sha256_Sum256 os_files cmd_Run verbose jr =
    \<lparr>Rule_String = JRule_String jr,
     Rule_RuleHash = (\<lambda>w. RuleHash marshal_rule sha256_Sum256 jr),
     Rule_ContentHash = (\<lambda>w. (ContentHash marshal_content sha256_Sum256 (os_files w) jr, w)),
     Rule_Run = JRule_Run cmd_Run verbose jr\<rparr>"

subsection \<open>The Sqlite3 hash store (package sqlite)\<close>

text \<open>
  The table \<^verbatim>\<open>hashes (hash BLOB NOT NULL PRIMARY KEY, unix_secs INT NOT NULL)\<close>: its
  rows, at most one per hash. The database file either has the table or, before the
  schema is created, has not.
\<close>

type_synonym hashes_table = "(bytes \<times> int) list"

type_synonym sqlite_file = "hashes_table option"

text \<open>
  The four SQL texts of the package, each a Go constant:
  \<^item> \<open>schema\<close>: \<^verbatim>\<open>CREATE TABLE IF NOT EXISTS hashes (...)\<close>;
  \<^item> \<open>Has_q\<close>, the \<^verbatim>\<open>q\<close> of \<^verbatim>\<open>Has\<close>:
    \<^verbatim>\<open>UPDATE hashes SET unix_secs = $1 WHERE hash = $2\<close>;
  \<^item> \<open>Add_q\<close>, the \<^verbatim>\<open>q\<close> of \<^verbatim>\<open>Add\<close>:
    \<^verbatim>\<open>INSERT INTO hashes (hash, unix_secs) VALUES ($1, $2) ON CONFLICT DO UPDATE SET unix_secs = $2 WHERE hash = $1\<close>;
  \<^item> \<open>Add_q2\<close>, the \<^verbatim>\<open>q2\<close> of \<^verbatim>\<open>Add\<close>:
    \<^verbatim>\<open>DELETE FROM hashes WHERE unix_secs < $1\<close>.
\<close>

datatype sql = CreateTableIfNotExists | UpdateSecsWhereHash | InsertOrUpdateSecs | DeleteWhereSecsLess

definition schema :: sql where
  "schema = CreateTableIfNotExists"

definition Has_q :: sql where
  "Has_q = UpdateSecsWhereHash"

definition Add_q :: sql where
  "Add_q = InsertOrUpdateSecs"

definition Add_q2 :: sql where
  "Add_q2 = DeleteWhereSecsLess"

datatype sql_arg = ArgInt int | ArgBlob bytes

text \<open>The number of distinct parameters \<^verbatim>\<open>$1\<close>, \<^verbatim>\<open>$2\<close> of a statement.\<close>

fun NumInput :: "sql \<Rightarrow> nat" where
  "NumInput CreateTableIfNotExists = 0"
| "NumInput UpdateSecsWhereHash = 2"
| "NumInput InsertOrUpdateSecs = 2"
| "NumInput DeleteWhereSecsLess = 1"

text \<open>
  What a statement does to the file, once its parameters are bound, with the number of
  rows it affected: the semantics of SQLite on a store that works. The upsert inserts the
  row, or on a conflict of the primary key sets the time of the row in conflict, whose
  hash is \<^verbatim>\<open>$1\<close>. The last case stands for argument shapes that no call of the
  package has.
\<close>

definition run_sql :: "sql \<Rightarrow> sql_arg list \<Rightarrow> sqlite_file \<Rightarrow> (error + nat) \<times> sqlite_file" where
  "run_sql query args file =
    (case file of
       None \<Rightarrow>
        (case (query, args) of
           (CreateTableIfNotExists, []) \<Rightarrow> (Inr 0, Some [])
         | _ \<Rightarrow> (Inl (ErrorString ''no such table: hashes''), None))
     | Some rows \<Rightarrow>
        (case (query, args) of
           (CreateTableIfNotExists, []) \<Rightarrow> (Inr 0, Some rows)
         | (UpdateSecsWhereHash, [ArgInt secs, ArgBlob h]) \<Rightarrow>
            (case map_of rows h of
               None \<Rightarrow> (Inr 0, Some rows)
             | Some old \<Rightarrow> (Inr 1, Some (AList.update h secs rows)))
         | (InsertOrUpdateSecs, [ArgBlob h, ArgInt secs]) \<Rightarrow>
            (Inr 1, Some (AList.update h secs rows))
         | (DeleteWhereSecsLess, [ArgInt cutoff]) \<Rightarrow>
            (Inr (length (filter (\<lambda>(h, secs). secs < cutoff) rows)),
             Some (filter (\<lambda>(h, secs). \<not> secs < cutoff) rows))
         | _ \<Rightarrow> (Inl (ErrorString ''unsupported arguments''), Some rows)))"

text \<open>
  \<^verbatim>\<open>(*sql.DB).ExecContext(ctx, query, args...)\<close> through the go-sqlite3 driver: a call
  with fewer arguments than the statement has parameters is refused before the statement
  runs, and leaves the file as it is.
\<close>

definition ExecContext :: "sqlite_file \<Rightarrow> sql \<Rightarrow> sql_arg list \<Rightarrow> (error + nat) \<times> sqlite_file" where
  "ExecContext file query args =
    (if length args < NumInput query
     then (Inl (ErrorString ''not enough args to execute query''), file)
     else run_sql query args file)"

text \<open>
  \<^verbatim>\<open>type DB struct { db *sql.DB; keep time.Duration }\<close>. The handle \<^verbatim>\<open>db\<close> stands for
  the database file, which the operations below take and return; \<open>keep\<close> is a
  \<^verbatim>\<open>time.Duration\<close>, in nanoseconds.
\<close>

record sqlite_DB =
  keep :: int

text \<open>
  Times are nanoseconds since the epoch; \<^verbatim>\<open>Time.Unix()\<close> is the number of whole seconds
  (rounded down), \<^verbatim>\<open>Time.Add(d)\<close> adds a duration.
\<close>

definition time_Unix :: "int \<Rightarrow> int" where
  "time_Unix t = t div 1000000000"

definition time_Add :: "int \<Rightarrow> int \<Rightarrow> int" where
  "time_Add t d = t + d"

text \<open>\<^verbatim>\<open>type Option func(*DB)\<close> and \<^verbatim>\<open>func Keep(d time.Duration) Option\<close>.\<close>

type_synonym Option = "sqlite_DB \<Rightarrow> sqlite_DB"

definition Keep :: "int \<Rightarrow> Option" where
  "Keep d = (\<lambda>db. db\<lparr>keep := d\<rparr>)"

text \<open>
  \<^verbatim>\<open>func Open(ctx context.Context, path string, opts ...Option) (*DB, error)\<close>, on the
  file at \<open>path\<close>: creates the schema if needed, then applies the options in order to a
  \<^verbatim>\<open>DB\<close> whose \<open>keep\<close> is zero. (\<^verbatim>\<open>sql.Open\<close> itself only validates its arguments.)
\<close>

definition Open :: "sqlite_file \<Rightarrow> Option list \<Rightarrow> (error + sqlite_DB) \<times> sqlite_file" where
  "Open file opts =
    (case ExecContext file schema [] of
       (Inl err, file') \<Rightarrow> (Inl (WithMessage err ''creating schema''), file')
     | (Inr n, file') \<Rightarrow> (Inr (foldl (\<lambda>result opt. opt result) \<lparr>keep = 0\<rparr> opts), file'))"

text \<open>
  \<^verbatim>\<open>func (db *DB) Has(ctx context.Context, h []byte) (bool, error)\<close>. \<open>now\<close> is the
  reading of \<^verbatim>\<open>time.Now()\<close>. \<^verbatim>\<open>RowsAffected\<close> of this driver returns no error, and
  \<^verbatim>\<open>errors.Wrap\<close> of nil is nil.
\<close>

definition Has :: "sqlite_DB \<Rightarrow> int \<Rightarrow> bytes \<Rightarrow> sqlite_file \<Rightarrow> (error + bool) \<times> sqlite_file" where
  "Has db now h file =
    (case ExecContext file Has_q [ArgInt (time_Unix now), ArgBlob h] of
       (Inl err, file') \<Rightarrow> (Inl (WithMessage err ''updating database''), file')
     | (Inr aff, file') \<Rightarrow> (Inr (aff > 0), file'))"

text \<open>
  \<^verbatim>\<open>func (db *DB) Add(ctx context.Context, h []byte) error\<close>. \<open>now\<close> and \<open>now'\<close> are the
  two readings of \<^verbatim>\<open>time.Now()\<close>, the second taken only when \<open>keep\<close> is positive. The
  second \<^verbatim>\<open>ExecContext\<close> is given \<^verbatim>\<open>q\<close>, as in the source; \<^verbatim>\<open>q2\<close> is declared there
  and never used.
\<close>

definition Add :: "sqlite_DB \<Rightarrow> int \<Rightarrow> int \<Rightarrow> bytes \<Rightarrow> sqlite_file \<Rightarrow> error option \<times> sqlite_file" where
  "Add db now now' h file =
    (case ExecContext file Add_q [ArgBlob h, ArgInt (time_Unix now)] of
       (Inl err, file1) \<Rightarrow> (Some (WithMessage err ''adding hash to database''), file1)
     | (Inr n, file1) \<Rightarrow>
        if keep db > 0 then
          (case ExecContext file1 Add_q [ArgInt (time_Unix (time_Add now' (- keep db)))] of
             (Inl err, file2) \<Rightarrow>
               (Some (WithMessage err ''evicting expired database entries''), file2)
           | (Inr n', file2) \<Rightarrow> (None, file2))
        else (None, file1))"

text \<open>
  The calls a program can make on the store through this package, for stating what holds
  after any later use of the same file: \<open>OpOpen\<close> is a (re)start, opening the file again.
\<close>

datatype store_call =
    OpOpen "Option list"
  | OpHas sqlite_DB int bytes
  | OpAdd sqlite_DB int int bytes

fun store_step :: "sqlite_file \<Rightarrow> store_call \<Rightarrow> sqlite_file" where
  "store_step file (OpOpen opts) = snd (Open file opts)"
| "store_step file (OpHas db now h) = snd (Has db now h file)"
| "store_step file (OpAdd db now now' h) = snd (Add db now now' h file)"

definition store_calls :: "sqlite_file \<Rightarrow> store_call list \<Rightarrow> sqlite_file" where
  "store_calls file calls = foldl store_step file calls"

text \<open>Whether the table of the file has a row for the hash.\<close>

definition present :: "bytes \<Rightarrow> sqlite_file \<Rightarrow> bool" where
  "present h file = (case file of None \<Rightarrow> False | Some rows \<Rightarrow> map_of rows h \<noteq> None)"

subsection \<open>Test doubles and example data\<close>

text \<open>
  A rule and a store with scripted results, for running \<open>Fn_Run\<close> on concrete inputs.
  The world is a counter of the content-hash calls made so far: the first call returns
  \<open>first\<close>, every later one \<open>second\<close>.
\<close>

definition mock_Rule :: "(error + bytes) \<Rightarrow> result \<Rightarrow> (error + bytes) \<Rightarrow> nat Rule" where
  "mock_Rule first run second =
    \<lparr>Rule_String = ''mock'',
     Rule_RuleHash = (\<lambda>w. []),
     Rule_ContentHash = (\<lambda>w. (if w = 0 then first else second, Suc w)),
     Rule_Run = (\<lambda>w. (run, w))\<rparr>"

definition mock_DB :: "(error + bool) \<Rightarrow> error option \<Rightarrow> nat DB" where
  "mock_DB has add = \<lparr>DB_Has = (\<lambda>h w. (has, w)), DB_Add = (\<lambda>h w. (add, w))\<rparr>"

text \<open>
  The rule of the README and of the specification's scenario: \<^verbatim>\<open>b.txt\<close> is made from
  \<^verbatim>\<open>a.txt\<close> by \<^verbatim>\<open>cp\<close>. In \<open>example_fs\<close> the file \<^verbatim>\<open>a.txt\<close> holds the one byte
  \<^verbatim>\<open>x\<close>, \<^verbatim>\<open>secret.txt\<close> exists and cannot be opened, and no other file exists.
\<close>

definition example_rule :: JRule where
  "example_rule =
    \<lparr>Sources = [''a.txt''], Targets = [''b.txt''],
     Command = [''cp'', ''a.txt'', ''b.txt''], Dir = ''''\<rparr>"

definition example_fs :: filesystem where
  "example_fs path =
    (if path = ''a.txt'' then Contents [120]
     else if path = ''secret.txt''
       then OpenFails (PathError ''open'' path (ErrorString ''permission denied''))
     else OpenFails (PathError ''open'' path ErrNotExist))"

text \<open>
  Stand-ins for the encoder and the digest on concrete inputs. \<open>example_marshal\<close> tells
  a rule's three lists and its \<^verbatim>\<open>Dir\<close> apart (it is injective) and never fails;
  \<open>example_marshal_content\<close> encodes what the two maps bind \<^verbatim>\<open>a.txt\<close> and
  \<^verbatim>\<open>b.txt\<close> to: 0 for no entry, 1 for a nil entry, 2 and the digest for a digest.
\<close>

definition example_marshal :: "JRule \<Rightarrow> error + bytes" where
  "example_marshal jr = Inr (replicate (to_nat (Sources jr, Targets jr, Command jr, Dir jr)) 0)"

definition example_entry :: "bytes option option \<Rightarrow> bytes" where
  "example_entry e = (case e of None \<Rightarrow> [0] | Some None \<Rightarrow> [1] | Some (Some d) \<Rightarrow> 2 # d)"

definition example_marshal_content :: "content \<Rightarrow> error + bytes" where
  "example_marshal_content s =
    Inr (example_entry (content_Sources s ''a.txt'') @ example_entry (content_Targets s ''b.txt''))"

section \<open>Properties\<close>

subsection \<open>The skip engine\<close>

lemma calls_Add_simps:
  "calls_Add [] = False"
  "calls_Add (e # tr) = (is_CallAdd e \<or> calls_Add tr)"
  "calls_Add (tr @ tr') = (calls_Add tr \<or> calls_Add tr')"
  by (auto simp: calls_Add_def list_ex_iff)

text \<open>
  The converse view of the next theorem: an invocation reaches \<^verbatim>\<open>DB.Add\<close> only when both
  content hashes were computed, the store did not have the first, and the rule's action
  returned nil.
\<close>

lemma Fn_Run_Add_only_after_success:
  assumes "calls_Add (snd (snd (Fn_Run f verbose w)))"
  shows "\<exists>h w_hash w_has w_run h' w_rehash.
           Rule_ContentHash (Fn_Rule f) w = (Inr h, w_hash) \<and>
           DB_Has (Fn_DB f) h w_hash = (Inr False, w_has) \<and>
           Rule_Run (Fn_Rule f) w_has = (Returned None, w_run) \<and>
           Rule_ContentHash (Fn_Rule f) w_run = (Inr h', w_rehash)"
  using assms
  by (auto simp: Fn_Run_def calls_Add_simps
      split: prod.splits sum.splits if_splits result.splits option.splits)

text \<open>
  Claim C3. In every invocation of \<^verbatim>\<open>Fn.Run\<close>: if the content hash computed before the
  build fails, or the rule's \<^verbatim>\<open>Run\<close> returns an error, or the content hash recomputed
  after the build fails, then the invocation returns that error wrapped with the phase it
  came from (``computing content hash'', ``in Run'', ``recomputing content hash''), and its
  trace has no call of \<^verbatim>\<open>DB.Add\<close>. (\<^verbatim>\<open>Rule.Run\<close> and the second hash are reached only
  after a successful first hash that the store does not have.)
\<close>

theorem Fn_Run_error_prevents_Add:
  "(Rule_ContentHash (Fn_Rule f) w = (Inl err, w_hash) \<longrightarrow>
      Fn_Run f verbose w =
        (Returned (Some (WithMessage err ''computing content hash'')), w_hash,
         [CallContentHash])
      \<and> \<not> calls_Add (snd (snd (Fn_Run f verbose w))))
   \<and> (Rule_ContentHash (Fn_Rule f) w = (Inr h, w_hash) \<and>
      DB_Has (Fn_DB f) h w_hash = (Inr False, w_has) \<and>
      Rule_Run (Fn_Rule f) w_has = (Returned (Some err), w_run) \<longrightarrow>
      Fn_Run f verbose w =
        (Returned (Some (WithMessage err ''in Run'')), w_run,
         [CallContentHash, CallHas h, CallRun])
      \<and> \<not> calls_Add (snd (snd (Fn_Run f verbose w))))
   \<and> (Rule_ContentHash (Fn_Rule f) w = (Inr h, w_hash) \<and>
      DB_Has (Fn_DB f) h w_hash = (Inr False, w_has) \<and>
      Rule_Run (Fn_Rule f) w_has = (Returned None, w_run) \<and>
      Rule_ContentHash (Fn_Rule f) w_run = (Inl err, w_rehash) \<longrightarrow>
      Fn_Run f verbose w =
        (Returned (Some (WithMessage err ''recomputing content hash'')), w_rehash,
         [CallContentHash, CallHas h, CallRun, CallContentHash])
      \<and> \<not> calls_Add (snd (snd (Fn_Run f verbose w))))"
  by (simp add: Fn_Run_def calls_Add_simps)

text \<open>
  The three cases on test doubles: a first hash that fails, a command that exits with an
  error, a second hash that fails.
\<close>

theorem Fn_Run_error_prevents_Add_witness:
  "Fn_Run \<lparr>Fn_DB = mock_DB (Inr False) None,
           Fn_Rule = mock_Rule (Inl (ErrorString ''read error'')) (Returned None) (Inr [2])\<rparr>
     False 0 =
     (Returned (Some (WithMessage (ErrorString ''read error'') ''computing content hash'')),
      1, [CallContentHash])
   \<and> Fn_Run \<lparr>Fn_DB = mock_DB (Inr False) None,
           Fn_Rule = mock_Rule (Inr [1]) (Returned (Some (ErrorString ''exit status 1'')))
                       (Inr [2])\<rparr>
     False 0 =
     (Returned (Some (WithMessage (ErrorString ''exit status 1'') ''in Run'')),
      1, [CallContentHash, CallHas [1], CallRun])
   \<and> Fn_Run \<lparr>Fn_DB = mock_DB (Inr False) None,
           Fn_Rule = mock_Rule (Inr [1]) (Returned None) (Inl (ErrorString ''read error''))\<rparr>
     False 0 =
     (Returned (Some (WithMessage (ErrorString ''read error'') ''recomputing content hash'')),
      2, [CallContentHash, CallHas [1], CallRun, CallContentHash])
   \<and> \<not> calls_Add (snd (snd (Fn_Run \<lparr>Fn_DB = mock_DB (Inr False) None,
           Fn_Rule = mock_Rule (Inr [1]) (Returned (Some (ErrorString ''exit status 1'')))
                       (Inr [2])\<rparr> False 0)))"
  using
    Fn_Run_error_prevents_Add
      [where f = "\<lparr>Fn_DB = mock_DB (Inr False) None,
           Fn_Rule = mock_Rule (Inl (ErrorString ''read error'')) (Returned None) (Inr [2])\<rparr>"
        and w = 0 and err = "ErrorString ''read error''" and w_hash = 1 and verbose = False]
    Fn_Run_error_prevents_Add
      [where f = "\<lparr>Fn_DB = mock_DB (Inr False) None,
           Fn_Rule = mock_Rule (Inr [1]) (Returned (Some (ErrorString ''exit status 1'')))
                       (Inr [2])\<rparr>"
        and w = 0 and h = "[1]" and err = "ErrorString ''exit status 1''" and w_hash = 1
        and w_has = 1 and w_run = 1 and verbose = False]
    Fn_Run_error_prevents_Add
      [where f = "\<lparr>Fn_DB = mock_DB (Inr False) None,
           Fn_Rule = mock_Rule (Inr [1]) (Returned None) (Inl (ErrorString ''read error''))\<rparr>"
        and w = 0 and h = "[1]" and err = "ErrorString ''read error''" and w_hash = 1
        and w_has = 1 and w_run = 1 and w_rehash = 2 and verbose = False]
  by (simp add: mock_Rule_def mock_DB_def calls_Add_simps)

text \<open>
  Claim C4. In every invocation of \<^verbatim>\<open>Fn.Run\<close>: if the first content hash \<open>h\<close> is computed
  and \<^verbatim>\<open>DB.Has\<close> returns true for it, the invocation returns nil right after the
  membership check (logging ``up to date'' when verbose): it calls neither \<^verbatim>\<open>Rule.Run\<close>
  nor \<^verbatim>\<open>DB.Add\<close>.
\<close>

theorem Fn_Run_cache_hit_stops:
  assumes "Rule_ContentHash (Fn_Rule f) w = (Inr h, w_hash)"
    and "DB_Has (Fn_DB f) h w_hash = (Inr True, w_has)"
  shows "Fn_Run f verbose w =
           (Returned None, w_has,
            [CallContentHash, CallHas h] @
            (if verbose then [LogPrintf (Rule_String (Fn_Rule f) @ '' up to date'')] else []))
         \<and> \<not> calls_Run (snd (snd (Fn_Run f verbose w)))
         \<and> \<not> calls_Add (snd (snd (Fn_Run f verbose w)))"
  using assms by (simp add: Fn_Run_def calls_Add_simps calls_Run_def)

theorem Fn_Run_cache_hit_stops_witness:
  "Fn_Run \<lparr>Fn_DB = mock_DB (Inr True) None,
           Fn_Rule = mock_Rule (Inr [1]) (Returned None) (Inr [2])\<rparr> True 0 =
     (Returned None, 1, [CallContentHash, CallHas [1], LogPrintf ''mock up to date''])
   \<and> \<not> calls_Run (snd (snd (Fn_Run \<lparr>Fn_DB = mock_DB (Inr True) None,
           Fn_Rule = mock_Rule (Inr [1]) (Returned None) (Inr [2])\<rparr> True 0)))
   \<and> \<not> calls_Add (snd (snd (Fn_Run \<lparr>Fn_DB = mock_DB (Inr True) None,
           Fn_Rule = mock_Rule (Inr [1]) (Returned None) (Inr [2])\<rparr> True 0)))"
  using Fn_Run_cache_hit_stops
      [where f = "\<lparr>Fn_DB = mock_DB (Inr True) None,
           Fn_Rule = mock_Rule (Inr [1]) (Returned None) (Inr [2])\<rparr>"
        and w = 0 and h = "[1]" and w_hash = 1 and w_has = 1 and verbose = True]
  by (simp add: mock_Rule_def mock_DB_def calls_Run_def calls_Add_simps)

subsection \<open>The file-set rule\<close>

lemma JRule_Run_empty_command_panics:
  "Command jr = [] \<Longrightarrow> JRule_Run cmd_Run verbose jr w = (Panicked, w)"
  by (simp add: JRule_Run_def)

text \<open>
  Claim C10. \<^verbatim>\<open>JRule.Run\<close> on a rule whose \<^verbatim>\<open>Command\<close> is not empty does not panic: it
  spawns one command, with executable \<^verbatim>\<open>Command[0]\<close>, arguments \<^verbatim>\<open>Command[1:]\<close> (after
  the name, in the argument vector), the working directory \<^verbatim>\<open>Dir\<close> and both output
  streams connected exactly when verbose, and returns what the command returns.
\<close>

theorem JRule_Run_spawns_command:
  assumes "Command jr \<noteq> []"
  shows "JRule_Run cmd_Run verbose jr w =
           (case cmd_Run \<lparr>Cmd_Path = Command jr ! 0,
                          Cmd_Args = Command jr ! 0 # drop 1 (Command jr),
                          Cmd_Dir = Dir jr,
                          Cmd_Stdout = verbose, Cmd_Stderr = verbose\<rparr> w of
              (err, w') \<Rightarrow> (Returned err, w'))
         \<and> fst (JRule_Run cmd_Run verbose jr w) \<noteq> Panicked"
  using assms
  by (cases "Command jr")
    (auto simp: JRule_Run_def exec_CommandContext_def Let_def split: prod.splits)

text \<open>The example rule, in a world that lists the commands spawned.\<close>

theorem JRule_Run_spawns_command_witness:
  "JRule_Run (\<lambda>cmd w. (None, w @ [cmd])) False (example_rule\<lparr>Dir := ''/src''\<rparr>) [] =
     (Returned None,
      [\<lparr>Cmd_Path = ''cp'', Cmd_Args = [''cp'', ''a.txt'', ''b.txt''], Cmd_Dir = ''/src'',
        Cmd_Stdout = False, Cmd_Stderr = False\<rparr>])"
  using JRule_Run_spawns_command
      [where jr = "example_rule\<lparr>Dir := ''/src''\<rparr>" and cmd_Run = "\<lambda>cmd w. (None, w @ [cmd])"
        and verbose = False and w = "[]"]
  by (simp add: example_rule_def)

lemma fillWithFileHashes_cong:
  "\<forall>p\<in>set files. fs p = fs' p \<Longrightarrow>
   fillWithFileHashes sha fs files hashes = fillWithFileHashes sha fs' files hashes"
  by (induction files arbitrary: hashes) (auto simp: hashFile_def split: file_state.splits)

text \<open>
  Claim C7. \<^verbatim>\<open>ContentHash\<close> is a function of the rule and of what the declared source and
  target files are (their bytes, or that they do not exist, or how reading them fails):
  on two filesystem states that agree on every declared file it returns the same result.
  The call leaves the world as it found it, so a second call right after the first
  returns the same again.
\<close>

theorem ContentHash_deterministic:
  assumes "\<forall>p\<in>set (Sources jr) \<union> set (Targets jr). fs p = fs' p"
  shows "ContentHash json_Marshal sha fs jr = ContentHash json_Marshal sha fs' jr
    \<and> (case Rule_ContentHash
              (JRule_Rule marshal_rule json_Marshal sha os_files cmd_Run verbose jr) w of
         (x, w') \<Rightarrow>
           Rule_ContentHash
             (JRule_Rule marshal_rule json_Marshal sha os_files cmd_Run verbose jr) w' = (x, w'))"
proof
  have srcs: "fillWithFileHashes sha fs (Sources jr) Map.empty =
        fillWithFileHashes sha fs' (Sources jr) Map.empty"
    using assms by (intro fillWithFileHashes_cong) simp
  have tgts: "fillWithFileHashes sha fs (Targets jr) Map.empty =
        fillWithFileHashes sha fs' (Targets jr) Map.empty"
    using assms by (intro fillWithFileHashes_cong) simp
  show "ContentHash json_Marshal sha fs jr = ContentHash json_Marshal sha fs' jr"
    unfolding ContentHash_def srcs tgts by (rule refl)
  show "case Rule_ContentHash
              (JRule_Rule marshal_rule json_Marshal sha os_files cmd_Run verbose jr) w of
         (x, w') \<Rightarrow>
           Rule_ContentHash
             (JRule_Rule marshal_rule json_Marshal sha os_files cmd_Run verbose jr) w' = (x, w')"
    by (simp add: JRule_Rule_def)
qed

text \<open>A file that the rule does not declare is created; the content hash stays.\<close>

theorem ContentHash_deterministic_witness:
  "ContentHash example_marshal_content (\<lambda>b. b) (example_fs(''other.txt'' := Contents [1]))
     example_rule =
   ContentHash example_marshal_content (\<lambda>b. b) example_fs example_rule
   \<and> ContentHash example_marshal_content (\<lambda>b. b) example_fs example_rule = Inr [2, 120, 1]"
proof -
  have "\<forall>p\<in>set (Sources example_rule) \<union> set (Targets example_rule).
          (example_fs(''other.txt'' := Contents [1])) p = example_fs p"
    by (simp add: example_rule_def)
  from ContentHash_deterministic[OF this, of example_marshal_content "\<lambda>b. b"]
  show ?thesis
    by (simp add: ContentHash_def hashFile_def example_rule_def example_fs_def
        example_marshal_content_def example_entry_def)
qed






text \<open>
  Claim C9. Two rules that differ at most in \<^verbatim>\<open>Dir\<close> have the same rule hash and, on the
  same filesystem state, the same content hash. So when the content hash of one is in the
  store, the skip engine run on the other returns nil after the membership check, without
  running the command.
\<close>

theorem hashes_independent_of_Dir:
  assumes "Sources a = Sources b" and "Targets a = Targets b" and "Command a = Command b"
  shows "RuleHash marshal_rule sha a = RuleHash marshal_rule sha b
    \<and> ContentHash marshal_content sha fs a = ContentHash marshal_content sha fs b
    \<and> (ContentHash marshal_content sha (os_files w) a = Inr h \<and> DB_Has db h w = (Inr True, w') \<longrightarrow>
         Fn_Run \<lparr>Fn_DB = db,
                 Fn_Rule = JRule_Rule marshal_rule marshal_content sha os_files cmd_Run verbose b\<rparr>
           verbose w =
         (Returned None, w',
          [CallContentHash, CallHas h] @
          (if verbose then [LogPrintf (JRule_String b @ '' up to date'')] else [])))"
proof (intro conjI impI)
  show "RuleHash marshal_rule sha a = RuleHash marshal_rule sha b"
    using assms by (simp add: RuleHash_def)
  show eq: "ContentHash marshal_content sha fs a = ContentHash marshal_content sha fs b" for fs
    unfolding ContentHash_def assms by (rule refl)
  assume "ContentHash marshal_content sha (os_files w) a = Inr h \<and> DB_Has db h w = (Inr True, w')"
  then show "Fn_Run \<lparr>Fn_DB = db,
                 Fn_Rule = JRule_Rule marshal_rule marshal_content sha os_files cmd_Run verbose b\<rparr>
           verbose w =
         (Returned None, w',
          [CallContentHash, CallHas h] @
          (if verbose then [LogPrintf (JRule_String b @ '' up to date'')] else []))"
    by (simp add: Fn_Run_def JRule_Rule_def eq[symmetric])
qed

text \<open>
  The example rule configured to run in \<^verbatim>\<open>/one\<close> and in \<^verbatim>\<open>/two\<close>: one content hash,
  and a store that has it makes the engine skip the second.
\<close>

theorem hashes_independent_of_Dir_witness:
  "RuleHash example_marshal (\<lambda>b. b) (example_rule\<lparr>Dir := ''/one''\<rparr>) =
   RuleHash example_marshal (\<lambda>b. b) (example_rule\<lparr>Dir := ''/two''\<rparr>)
   \<and> ContentHash example_marshal_content (\<lambda>b. b) example_fs (example_rule\<lparr>Dir := ''/two''\<rparr>) =
     Inr [2, 120, 1]
   \<and> Fn_Run \<lparr>Fn_DB = mock_DB (Inr True) None,
             Fn_Rule = JRule_Rule example_marshal example_marshal_content (\<lambda>b. b)
                         (\<lambda>w. example_fs) (\<lambda>cmd w. (None, Suc w)) False
                         (example_rule\<lparr>Dir := ''/two''\<rparr>)\<rparr>
       False 0 =
     (Returned None, 0, [CallContentHash, CallHas [2, 120, 1]])"
proof -
  have one: "ContentHash example_marshal_content (\<lambda>b. b) example_fs
               (example_rule\<lparr>Dir := ''/one''\<rparr>) = Inr [2, 120, 1]"
    by (simp add: ContentHash_def hashFile_def example_rule_def example_fs_def
        example_marshal_content_def example_entry_def)
  have has: "DB_Has (mock_DB (Inr True) None) [2, 120, 1] (0::nat) = (Inr True, 0)"
    by (simp add: mock_DB_def)
  from hashes_independent_of_Dir
         [of "example_rule\<lparr>Dir := ''/one''\<rparr>" "example_rule\<lparr>Dir := ''/two''\<rparr>"
             example_marshal "\<lambda>b. b" example_marshal_content example_fs
             "\<lambda>w. example_fs" 0 "[2, 120, 1]" "mock_DB (Inr True) None" 0
             "\<lambda>cmd w. (None, Suc w)" False]
       one has
  show ?thesis by simp
qed





subsection \<open>The Sqlite3 hash store\<close>

lemma ExecContext_Has_q:
  "ExecContext (Some rows) Has_q [ArgInt secs, ArgBlob h] =
     (case map_of rows h of
        None \<Rightarrow> (Inr 0, Some rows)
      | Some old \<Rightarrow> (Inr 1, Some (AList.update h secs rows)))"
  by (simp add: ExecContext_def Has_q_def run_sql_def)

lemma ExecContext_Add_q:
  "ExecContext (Some rows) Add_q [ArgBlob h, ArgInt secs] =
     (Inr 1, Some (AList.update h secs rows))"
  by (simp add: ExecContext_def Add_q_def run_sql_def)

text \<open>The statement \<^verbatim>\<open>q\<close> of \<^verbatim>\<open>Add\<close> has two parameters: with one argument it does not run.\<close>

lemma ExecContext_Add_q_one_arg:
  "ExecContext dbfile Add_q [arg] =
     (Inl (ErrorString ''not enough args to execute query''), dbfile)"
  by (simp add: ExecContext_def Add_q_def)

text \<open>
  The statement \<^verbatim>\<open>q2\<close>, which \<^verbatim>\<open>Add\<close> declares and does not execute, is the one that
  deletes: it keeps exactly the rows whose time is not below the cutoff.
\<close>

lemma ExecContext_Add_q2:
  "ExecContext (Some rows) Add_q2 [ArgInt cutoff] =
     (Inr (length (filter (\<lambda>(h, secs). secs < cutoff) rows)),
      Some (filter (\<lambda>(h, secs). \<not> secs < cutoff) rows))"
  by (simp add: ExecContext_def Add_q2_def run_sql_def)

lemma ExecContext_no_table:
  "ExecContext None Has_q [a, b] = (Inl (ErrorString ''no such table: hashes''), None)"
  "ExecContext None Add_q [a, b] = (Inl (ErrorString ''no such table: hashes''), None)"
  by (simp_all add: ExecContext_def Add_q_def Has_q_def run_sql_def)

lemma ExecContext_schema:
  "ExecContext dbfile schema [] =
     (Inr 0, Some (case dbfile of None \<Rightarrow> [] | Some rows \<Rightarrow> rows))"
  by (cases dbfile) (simp_all add: ExecContext_def schema_def run_sql_def)

text \<open>
  \<^verbatim>\<open>Add\<close> in closed form, on a file that has the table: the row is upserted, and the
  call reports an error exactly when \<open>keep\<close> is positive.
\<close>

lemma Add_Some:
  "Add db now now' h (Some rows) =
     (if keep db > 0
      then Some (WithMessage (ErrorString ''not enough args to execute query'')
                   ''evicting expired database entries'')
      else None,
      Some (AList.update h (time_Unix now) rows))"
  by (simp add: Add_def ExecContext_Add_q ExecContext_Add_q_one_arg)

lemma Add_None:
  "Add db now now' h None =
     (Some (WithMessage (ErrorString ''no such table: hashes'') ''adding hash to database''),
      None)"
  by (simp add: Add_def ExecContext_no_table)

lemma Has_Some:
  "Has db now h (Some rows) =
     (case map_of rows h of
        None \<Rightarrow> (Inr False, Some rows)
      | Some old \<Rightarrow> (Inr True, Some (AList.update h (time_Unix now) rows)))"
  by (simp add: Has_def ExecContext_Has_q split: option.splits)

lemma Has_None:
  "Has db now h None =
     (Inl (WithMessage (ErrorString ''no such table: hashes'') ''updating database''), None)"
  by (simp add: Has_def ExecContext_no_table)

lemma Open_creates_schema:
  "Open dbfile opts =
     (Inr (foldl (\<lambda>result opt. opt result) \<lparr>keep = 0\<rparr> opts),
      Some (case dbfile of None \<Rightarrow> [] | Some rows \<Rightarrow> rows))"
  by (simp add: Open_def ExecContext_schema)

text \<open>No call of the package removes a row.\<close>

lemma present_Add:
  "present h (snd (Add db now now' h' dbfile)) = (present h dbfile \<or> (dbfile \<noteq> None \<and> h = h'))"
  by (cases dbfile) (auto simp: Add_Some Add_None present_def update_conv')

lemma present_Has: "present h (snd (Has db now h' dbfile)) = present h dbfile"
  by (cases dbfile)
    (auto simp: Has_Some Has_None present_def update_conv' split: option.splits)

lemma present_Open: "present h (snd (Open dbfile opts)) = present h dbfile"
  by (cases dbfile) (simp_all add: Open_creates_schema present_def)

lemma present_store_step: "present h dbfile \<Longrightarrow> present h (store_step dbfile c)"
  by (cases c) (simp_all add: present_Add present_Has present_Open)

lemma present_store_calls: "present h dbfile \<Longrightarrow> present h (store_calls dbfile calls)"
  unfolding store_calls_def
  by (induction calls arbitrary: dbfile) (simp_all add: present_store_step)

lemma Has_present: "present h dbfile \<Longrightarrow> fst (Has db now h dbfile) = Inr True"
  by (cases dbfile) (auto simp: Has_Some present_def)

lemma Add_success_present: "Add db now now' h dbfile = (None, dbfile') \<Longrightarrow> present h dbfile'"
  by (cases dbfile) (auto simp: Add_Some Add_None present_def update_conv' split: if_splits)

lemma Add_without_Keep_upserts:
  "keep db \<le> 0 \<Longrightarrow>
   Add db now now' h (Some rows) = (None, Some (AList.update h (time_Unix now) rows))"
  by (simp add: Add_Some)

text \<open>
  Claim C5. After an \<^verbatim>\<open>Add\<close> of \<open>h\<close> that returned nil, \<^verbatim>\<open>Has\<close> of \<open>h\<close> returns true,
  through any handle on the same file, at any time and after any further calls of the
  package on the file, reopening included. (The code never deletes a row, so no elapsed
  window takes the entry away.) And on a store that does not hold \<open>h\<close>, \<^verbatim>\<open>Has\<close> returns
  false with no error and leaves the file as it is.
\<close>

theorem Has_after_successful_Add:
  "(Add db now now' h dbfile = (None, dbfile') \<longrightarrow>
      fst (Has db' t h (store_calls dbfile' calls)) = Inr True)
   \<and> (dbfile = Some rows \<and> map_of rows h = None \<longrightarrow>
      Has db t h dbfile = (Inr False, dbfile))"
proof (intro conjI impI)
  assume "Add db now now' h dbfile = (None, dbfile')"
  then have "present h dbfile'"
    by (rule Add_success_present)
  then have "present h (store_calls dbfile' calls)"
    by (rule present_store_calls)
  then show "fst (Has db' t h (store_calls dbfile' calls)) = Inr True"
    by (rule Has_present)
next
  assume "dbfile = Some rows \<and> map_of rows h = None"
  then show "Has db t h dbfile = (Inr False, dbfile)"
    by (simp add: Has_Some)
qed

text \<open>
  A store opened without \<^verbatim>\<open>Keep\<close>: the hash added is found after a restart, another
  \<^verbatim>\<open>Add\<close> and another \<^verbatim>\<open>Has\<close>, a day later; a hash never added is not found.
\<close>

theorem Has_after_successful_Add_witness:
  "Add \<lparr>keep = 0\<rparr> 5000000000 5000000000 [1] (Some []) = (None, Some [([1], 5)])
   \<and> fst (Has \<lparr>keep = 0\<rparr> 86400000000000 [1]
            (store_calls (Some [([1], 5)])
               [OpOpen [], OpAdd \<lparr>keep = 0\<rparr> 6000000000 6000000000 [2],
                OpHas \<lparr>keep = 0\<rparr> 7000000000 [3]])) = Inr True
   \<and> Has \<lparr>keep = 0\<rparr> 5000000000 [9] (Some [([1], 5)]) = (Inr False, Some [([1], 5)])"
proof -
  have add: "Add \<lparr>keep = 0\<rparr> 5000000000 5000000000 [1] (Some []) = (None, Some [([1], 5)])"
    by (simp add: Add_def ExecContext_def run_sql_def Add_q_def time_Unix_def)
  have absent: "map_of [([1::8 word], 5::int)] [9] = None"
    by simp
  from Has_after_successful_Add
         [of "\<lparr>keep = 0\<rparr>" 5000000000 5000000000 "[1]" "Some []" "Some [([1], 5)]"
             "\<lparr>keep = 0\<rparr>" 86400000000000
             "[OpOpen [], OpAdd \<lparr>keep = 0\<rparr> 6000000000 6000000000 [2],
               OpHas \<lparr>keep = 0\<rparr> 7000000000 [3]]"]
       add
  have later: "fst (Has \<lparr>keep = 0\<rparr> 86400000000000 [1]
            (store_calls (Some [([1], 5)])
               [OpOpen [], OpAdd \<lparr>keep = 0\<rparr> 6000000000 6000000000 [2],
                OpHas \<lparr>keep = 0\<rparr> 7000000000 [3]])) = Inr True"
    by blast
  from Has_after_successful_Add
         [of "\<lparr>keep = 0\<rparr>" 5000000000 5000000000 "[9]" "Some [([1], 5)]" "Some [([1], 5)]"
             "\<lparr>keep = 0\<rparr>" 5000000000 "[]" "[([1], 5)]"]
       absent
  have "Has \<lparr>keep = 0\<rparr> 5000000000 [9] (Some [([1], 5)]) = (Inr False, Some [([1], 5)])"
    by blast
  with add later show ?thesis by blast
qed

text \<open>
  Claim C1, where the code departs from it. With a retention window \<open>keep db > 0\<close>: an
  entry added at time \<open>T\<close> is still in the store after a later \<^verbatim>\<open>Add\<close> made at any time
  \<open>T'\<close> with \<open>T + keep db \<le> T'\<close>. The second statement of \<^verbatim>\<open>Add\<close> is executed with the
  text of the insertion instead of the deletion, so nothing is ever evicted.
\<close>

theorem Add_never_evicts:
  assumes "0 < keep db"
    and "snd (Add db T T h (Some rows)) = dbfile"
    and "T + keep db \<le> T'"
  shows "present h (snd (Add db T' T'' h' dbfile))"
  using assms by (auto simp: present_Add Add_Some present_def update_conv')

text \<open>
  A window of ten seconds; the first hash is added at time 0 and another one a hundred
  seconds later: the first is still there, and \<^verbatim>\<open>Has\<close> finds it.
\<close>

theorem Add_never_evicts_witness:
  "present [1]
     (snd (Add \<lparr>keep = 10000000000\<rparr> 100000000000 100000000000 [2]
        (snd (Add \<lparr>keep = 10000000000\<rparr> 0 0 [1] (Some [])))))
   \<and> snd (Add \<lparr>keep = 10000000000\<rparr> 100000000000 100000000000 [2]
        (snd (Add \<lparr>keep = 10000000000\<rparr> 0 0 [1] (Some [])))) = Some [([1], 0), ([2], 100)]"
proof -
  have "present [1]
     (snd (Add \<lparr>keep = 10000000000\<rparr> 100000000000 100000000000 [2]
        (snd (Add \<lparr>keep = 10000000000\<rparr> 0 0 [1] (Some [])))))"
    using Add_never_evicts
        [of "\<lparr>keep = 10000000000\<rparr>" 0 "[1]" "[]"
            "snd (Add \<lparr>keep = 10000000000\<rparr> 0 0 [1] (Some []))" 100000000000 100000000000 "[2]"]
    by simp
  moreover have "snd (Add \<lparr>keep = 10000000000\<rparr> 100000000000 100000000000 [2]
        (snd (Add \<lparr>keep = 10000000000\<rparr> 0 0 [1] (Some [])))) = Some [([1], 0), ([2], 100)]"
    by (simp add: Add_def ExecContext_def run_sql_def Add_q_def time_Unix_def)
  ultimately show ?thesis by blast
qed

text \<open>
  Claim C2, where the code departs from it. On a store that works (the file has the
  table, every statement behaves), \<^verbatim>\<open>Add\<close> through a handle opened with a positive
  \<^verbatim>\<open>Keep\<close> upserts the row and then returns an error: its second statement is the
  two-parameter insertion given one argument.
\<close>

theorem Add_with_Keep_returns_error:
  assumes "0 < keep db"
  shows "Add db now now' h (Some rows) =
           (Some (WithMessage (ErrorString ''not enough args to execute query'')
                    ''evicting expired database entries''),
            Some (AList.update h (time_Unix now) rows))"
  using assms by (simp add: Add_Some)

text \<open>A fresh file opened with a window of ten seconds, and the first \<^verbatim>\<open>Add\<close> on it.\<close>

theorem Add_with_Keep_returns_error_witness:
  "Open None [Keep 10000000000] = (Inr \<lparr>keep = 10000000000\<rparr>, Some [])
   \<and> Add \<lparr>keep = 10000000000\<rparr> 5000000000 5000000000 [1] (Some []) =
       (Some (WithMessage (ErrorString ''not enough args to execute query'')
                ''evicting expired database entries''),
        Some [([1], 5)])"
  using Add_with_Keep_returns_error
      [of "\<lparr>keep = 10000000000\<rparr>" 5000000000 5000000000 "[1]" "[]"]
  by (simp add: Open_creates_schema Keep_def time_Unix_def)

end
